theory Spec2Isabelle
  imports Main "HOL-Library.Sublist"
begin

section \<open>Numbers and strings of the host language\<close>

text \<open>
  The TypeScript sources compute with \<open>number\<close> and \<open>string\<close>. Latencies and budgets are
  modelled as \<^typ>\<open>int\<close> (whole milliseconds, of either sign); fractional values, the
  infinities and exponent notation for magnitudes of \<open>10^21\<close> and above are outside the
  model. Strings are \<^typ>\<open>string\<close>.
\<close>

definition digitChar :: "nat \<Rightarrow> char" where
  "digitChar d = ''0123456789'' ! d"

fun digitsOf :: "nat \<Rightarrow> string" where
  "digitsOf n =
     (if n < 10 then [digitChar n]
      else digitsOf (n div 10) @ [digitChar (n mod 10)])"

declare digitsOf.simps [simp del]

text \<open>The text a template literal \<open>${n}\<close> produces for an integral number.\<close>

definition numToString :: "int \<Rightarrow> string" where
  "numToString i = (if i < 0 then CHR ''-'' # digitsOf (nat (- i)) else digitsOf (nat i))"

text \<open>\<open>String.prototype.includes\<close>: the argument occurs as a contiguous run of characters.\<close>

definition str_includes :: "string \<Rightarrow> string \<Rightarrow> bool" where
  "str_includes s sub = sublist sub s"

text \<open>\<open>x || 0\<close> for \<open>x\<close> a number or \<open>undefined\<close>: \<open>undefined\<close> and \<open>0\<close> are falsy.\<close>

definition orZero :: "int option \<Rightarrow> int" where
  "orZero x = (case x of None \<Rightarrow> 0 | Some v \<Rightarrow> (if v = 0 then 0 else v))"

section \<open>ApiHub: the latency ledger\<close>

datatype error = Error string | TypeError

text \<open>
  The response object belongs to the browser driver; the model holds what the callback
  reads of it. \<open>response.url()\<close> is a string. \<open>response.request().postDataBuffer\<close> is read
  without being called, so only its truthiness matters (a method, as on the driver's
  request class, is truthy). \<open>response.timing\<close> is called: when the response object has no
  such method (the driver's response class has none; \<open>timing()\<close> belongs to its request
  class) the call throws a \<open>TypeError\<close>; otherwise it returns a timing object carrying the
  number \<open>responseEnd\<close>, or nothing, which the source allows for by reading through \<open>?.\<close>.
\<close>

record ResourceTiming =
  responseEnd :: int

datatype timingMember = NotAFunction | Returns "ResourceTiming option"

record Response =
  response_url :: string
  postDataBuffer :: bool
  timing :: timingMember

record ApiHub =
  requestTimings :: "string \<rightharpoonup> int"

definition new_ApiHub :: ApiHub where
  "new_ApiHub = \<lparr>requestTimings = Map.empty\<rparr>"

text \<open>The expression \<open>response.timing()?.responseEnd\<close>: a throw, \<open>undefined\<close>, or the number.\<close>

definition responseEndOf :: "Response \<Rightarrow> error + int option" where
  "responseEndOf response =
     (case timing response of
        NotAFunction \<Rightarrow> Inl TypeError
      | Returns t \<Rightarrow> Inr (map_option responseEnd t))"

text \<open>
  The two blocks of the callback registered by \<open>setupInterception\<close>, in source order. A
  block throws before its \<open>requestTimings.set\<close> when \<open>response.timing()\<close> does.
\<close>

definition chatBlock :: "ApiHub \<Rightarrow> Response \<Rightarrow> error + ApiHub" where
  "chatBlock hub response =
     (if str_includes (response_url response) ''/api/chat/messages'' then
        (case (if postDataBuffer response then responseEndOf response else Inr (Some 0)) of
           Inl e \<Rightarrow> Inl e
         | Inr t \<Rightarrow>
             Inr (hub\<lparr>requestTimings := (requestTimings hub)(''chat_latency'' \<mapsto> orZero t)\<rparr>))
      else Inr hub)"

definition imageBlock :: "ApiHub \<Rightarrow> Response \<Rightarrow> error + ApiHub" where
  "imageBlock hub response =
     (if str_includes (response_url response) ''/api/images/generate'' then
        (case responseEndOf response of
           Inl e \<Rightarrow> Inl e
         | Inr t \<Rightarrow>
             Inr (hub\<lparr>requestTimings :=
                    (requestTimings hub)
                      (''image_generation_latency'' \<mapsto> orZero (Some (orZero t)))\<rparr>))
      else Inr hub)"

text \<open>
  One run of the callback: its outcome and the hub it leaves behind. A throw in the first
  block skips the second; what was written before a throw stays written.
\<close>

definition onResponse :: "ApiHub \<Rightarrow> Response \<Rightarrow> (error + unit) \<times> ApiHub" where
  "onResponse hub response =
     (case chatBlock hub response of
        Inl e \<Rightarrow> (Inl e, hub)
      | Inr hub1 \<Rightarrow>
          (case imageBlock hub1 response of
             Inl e \<Rightarrow> (Inl e, hub1)
           | Inr hub2 \<Rightarrow> (Inr (), hub2)))"

text \<open>
  The host delivers the response events of a session one after the other; the callback has
  no \<open>await\<close>, so each run completes before the next event. The callback is \<open>async\<close>: a throw
  rejects the promise it returns and later events are still delivered.
\<close>

definition deliver :: "ApiHub \<Rightarrow> Response list \<Rightarrow> ApiHub" where
  "deliver hub events = foldl (\<lambda>h response. snd (onResponse h response)) hub events"

definition getLatency :: "ApiHub \<Rightarrow> string \<Rightarrow> int" where
  "getLatency hub endpoint = orZero (requestTimings hub endpoint)"

definition slaMessage :: "string \<Rightarrow> int \<Rightarrow> int \<Rightarrow> string" where
  "slaMessage endpoint actual maxMs =
     ''[LATENCY SLA VIOLATION] Endpoint: '' @ endpoint @ '' took '' @ numToString actual
       @ ''ms (max: '' @ numToString maxMs @ ''ms)''"

text \<open>
  \<open>assertLatencyWithin\<close> returns the outcome together with the hub it leaves behind, so that
  the absence of a write is a statement about the model.
\<close>

definition assertLatencyWithin :: "ApiHub \<Rightarrow> string \<Rightarrow> int \<Rightarrow> (error + unit) \<times> ApiHub" where
  "assertLatencyWithin hub endpoint maxMs =
     (let actual = getLatency hub endpoint
      in if actual > maxMs then (Inl (Error (slaMessage endpoint actual maxMs)), hub)
         else (Inr (), hub))"

text \<open>
  The observation rules the callback hard-codes, in source order: the substring looked for
  in the URL and the channel written.
\<close>

definition rules :: "(string \<times> string) list" where
  "rules = [(''/api/chat/messages'', ''chat_latency''),
            (''/api/images/generate'', ''image_generation_latency'')]"

text \<open>The channels of the rules an event matches, in rule order.\<close>

definition matchingChannels :: "Response \<Rightarrow> string list" where
  "matchingChannels response =
     map snd (filter (\<lambda>rule. str_includes (response_url response) (fst rule)) rules)"

text \<open>What a block stores of a returned timing: \<open>responseEnd\<close>, or \<open>0\<close> when there is none.\<close>

definition measured :: "ResourceTiming option \<Rightarrow> int" where
  "measured t = (case t of None \<Rightarrow> 0 | Some x \<Rightarrow> responseEnd x)"

section \<open>ImageAssetDTO: the schema validator\<close>

text \<open>
  The constructor takes \<open>data: any\<close>. The values modelled are the ones a decoded response
  body holds, and \<open>undefined\<close> (the value of an absent property): \<open>null\<close>, booleans, numbers
  (integral, and \<open>NaN\<close> for its falsiness), strings, arrays and plain objects. An object is
  the list of its own properties; it inherits from \<open>Object.prototype\<close> and none of its
  properties is callable.
\<close>

datatype jsval =
    JUndefined
  | JNull
  | JBool bool
  | JNum int
  | JNaN
  | JStr string
  | JArr "jsval list"
  | JObj "(string \<times> jsval) list"

text \<open>The truthiness that \<open>!x\<close> and \<open>x || y\<close> test.\<close>

fun truthy :: "jsval \<Rightarrow> bool" where
  "truthy JUndefined = False"
| "truthy JNull = False"
| "truthy (JBool b) = b"
| "truthy (JNum n) = (n \<noteq> 0)"
| "truthy JNaN = False"
| "truthy (JStr s) = (s \<noteq> [])"
| "truthy (JArr xs) = True"
| "truthy (JObj fs) = True"

text \<open>
  \<open>data.k\<close> for \<open>data\<close> other than \<open>undefined\<close> and \<open>null\<close>, at the five property names the
  constructor reads: a plain object yields the property or \<open>undefined\<close>, every other value
  has none of these properties.
\<close>

fun getProp :: "jsval \<Rightarrow> string \<Rightarrow> jsval" where
  "getProp (JObj fs) k = (case map_of fs k of None \<Rightarrow> JUndefined | Some v \<Rightarrow> v)"
| "getProp v k = JUndefined"

text \<open>\<open>Array.prototype.includes\<close> on an array of string literals: only an equal string is found.\<close>

fun arr_includes :: "string list \<Rightarrow> jsval \<Rightarrow> bool" where
  "arr_includes xs (JStr s) = (s \<in> set xs)"
| "arr_includes xs v = False"

fun joinComma :: "string list \<Rightarrow> string" where
  "joinComma [] = []"
| "joinComma [s] = s"
| "joinComma (s # t # ss) = s @ '','' @ joinComma (t # ss)"

text \<open>
  The string a template literal makes of a value, or \<open>None\<close> where the conversion throws a
  \<open>TypeError\<close>. An object with an own property \<open>toString\<close> has no callable \<open>toString\<close>, and
  its \<open>valueOf\<close> (own and not callable, or inherited and returning the object) yields no
  primitive, so the conversion throws; every other object inherits
  \<open>Object.prototype.toString\<close>. An array joins the conversions of its elements, \<open>undefined\<close>
  and \<open>null\<close> being rendered empty. Numbers are rendered as in \<open>numToString\<close>.
\<close>

fun toString :: "jsval \<Rightarrow> string option" where
  "toString JUndefined = Some ''undefined''"
| "toString JNull = Some ''null''"
| "toString (JBool b) = Some (if b then ''true'' else ''false'')"
| "toString (JNum n) = Some (numToString n)"
| "toString JNaN = Some ''NaN''"
| "toString (JStr s) = Some s"
| "toString (JArr xs) =
     map_option joinComma
       (those (map (\<lambda>x. if x = JUndefined \<or> x = JNull then Some [] else toString x) xs))"
| "toString (JObj fs) =
     (if map_of fs ''toString'' = None then Some ''[object Object]'' else None)"

record ImageAssetDTO =
  id' :: jsval
  url :: jsval
  provider :: jsval
  generationTime :: jsval
  metadata :: jsval

definition defaultMetadata :: jsval where
  "defaultMetadata =
     JObj [(''width'', JNum 1024), (''height'', JNum 1024), (''quality'', JStr ''premium'')]"

text \<open>\<open>a || b\<close> on values.\<close>

definition orElse :: "jsval \<Rightarrow> jsval \<Rightarrow> jsval" where
  "orElse a b = (if truthy a then a else b)"

text \<open>
  The constructor. Reading \<open>data.id\<close> of \<open>undefined\<close> or \<open>null\<close> throws a \<open>TypeError\<close> before
  any check runs; the four checks follow in source order, then the five assignments. The
  fourth check builds its message with a template literal, whose conversion of the provider
  may itself throw.
\<close>

definition new_ImageAssetDTO :: "jsval \<Rightarrow> error + ImageAssetDTO" where
  "new_ImageAssetDTO data =
     (if data = JUndefined \<or> data = JNull then Inl TypeError
      else if \<not> truthy (getProp data ''id'') then
        Inl (Error ''ImageAsset missing required field: id'')
      else if \<not> truthy (getProp data ''url'') then
        Inl (Error ''ImageAsset missing required field: url'')
      else if \<not> truthy (getProp data ''provider'') then
        Inl (Error ''ImageAsset missing required field: provider'')
      else if \<not> arr_includes [''openai'', ''stability-ai'', ''midjourney''] (getProp data ''provider'') then
        (case toString (getProp data ''provider'') of
           None \<Rightarrow> Inl TypeError
         | Some s \<Rightarrow> Inl (Error (''ImageAsset has invalid provider: '' @ s)))
      else
        Inr \<lparr>id' = getProp data ''id'',
             url = getProp data ''url'',
             provider = getProp data ''provider'',
             generationTime = orElse (getProp data ''generationTime'') (JNum 0),
             metadata = orElse (getProp data ''metadata'') defaultMetadata\<rparr>)"

definition isFromAuthorizedProvider :: "ImageAssetDTO \<Rightarrow> bool" where
  "isFromAuthorizedProvider this =
     (let authorizedProviders = [''openai'', ''stability-ai'']
      in arr_includes authorizedProviders (provider this))"

text \<open>The entity read back as an object with its five fields.\<close>

definition rawForm :: "ImageAssetDTO \<Rightarrow> jsval" where
  "rawForm e =
     JObj [(''id'', id' e), (''url'', url e), (''provider'', provider e),
           (''generationTime'', generationTime e), (''metadata'', metadata e)]"

text \<open>The values the constructor's membership check accepts as provider.\<close>

definition providerEnum :: "jsval set" where
  "providerEnum = {JStr ''openai'', JStr ''stability-ai'', JStr ''midjourney''}"

definition nullish :: "jsval \<Rightarrow> bool" where
  "nullish v = (v = JUndefined \<or> v = JNull)"

section \<open>Facts about the ledger\<close>

lemma orZero_Some [simp]: "orZero (Some v) = v"
  by (simp add: orZero_def)

lemma orZero_None [simp]: "orZero None = 0"
  by (simp add: orZero_def)

lemma getLatency_absent: "requestTimings hub c = None \<Longrightarrow> getLatency hub c = 0"
  by (simp add: getLatency_def)

lemma orZero_map: "orZero (map_option responseEnd t) = measured t"
  by (simp add: measured_def split: option.splits)

lemma onResponse_returns:
  assumes "timing r = Returns t"
  shows "fst (onResponse hub r) = Inr ()"
    and "requestTimings (snd (onResponse hub r)) c =
     (if c = ''image_generation_latency'' \<and> str_includes (response_url r) ''/api/images/generate''
      then Some (measured t)
      else if c = ''chat_latency'' \<and> str_includes (response_url r) ''/api/chat/messages''
      then Some (if postDataBuffer r then measured t else 0)
      else requestTimings hub c)"
  using assms
  by (simp_all add: onResponse_def chatBlock_def imageBlock_def responseEndOf_def orZero_map)

lemma onResponse_throws:
  assumes "timing r = NotAFunction"
  shows "requestTimings (snd (onResponse hub r)) c =
     (if c = ''chat_latency'' \<and> str_includes (response_url r) ''/api/chat/messages''
         \<and> \<not> postDataBuffer r
      then Some 0 else requestTimings hub c)"
  using assms
  by (simp add: onResponse_def chatBlock_def imageBlock_def responseEndOf_def)

lemma mem_matchingChannels:
  "c \<in> set (matchingChannels r) =
     (c = ''chat_latency'' \<and> str_includes (response_url r) ''/api/chat/messages''
      \<or> c = ''image_generation_latency'' \<and> str_includes (response_url r) ''/api/images/generate'')"
  by (auto simp: matchingChannels_def rules_def)

lemma onResponse_untouched:
  "c \<notin> set (matchingChannels r) \<Longrightarrow>
     requestTimings (snd (onResponse hub r)) c = requestTimings hub c"
  by (cases "timing r") (auto simp: onResponse_returns onResponse_throws mem_matchingChannels)


lemma deliver_absent:
  "requestTimings hub c = None \<Longrightarrow> \<forall>r \<in> set evs. c \<notin> set (matchingChannels r)
   \<Longrightarrow> requestTimings (deliver hub evs) c = None"
  unfolding deliver_def
proof (induction evs arbitrary: hub)
  case Nil
  then show ?case by simp
next
  case (Cons r evs)
  have "requestTimings (snd (onResponse hub r)) c = None"
    using Cons.prems by (simp add: onResponse_untouched)
  then show ?case using Cons by simp
qed



lemma slaMessage_endpoint: "sublist c (slaMessage c a m)"
  unfolding slaMessage_def by (rule sublist_appendI)

lemma slaMessage_actual: "sublist (numToString a) (slaMessage c a m)"
proof -
  have "slaMessage c a m =
      (''[LATENCY SLA VIOLATION] Endpoint: '' @ c @ '' took '') @ numToString a
        @ (''ms (max: '' @ numToString m @ ''ms)'')"
    by (simp add: slaMessage_def)
  then show ?thesis
    by (simp only: sublist_appendI)
qed

lemma slaMessage_budget: "sublist (numToString m) (slaMessage c a m)"
proof -
  have "slaMessage c a m =
      (''[LATENCY SLA VIOLATION] Endpoint: '' @ c @ '' took '' @ numToString a @ ''ms (max: '')
        @ numToString m @ ''ms)''"
    by (simp add: slaMessage_def)
  then show ?thesis
    by (simp only: sublist_appendI)
qed

section \<open>Facts about the validator\<close>

lemma arr_includes_enum:
  "arr_includes [''openai'', ''stability-ai'', ''midjourney''] v = (v \<in> providerEnum)"
  by (cases v) (auto simp: providerEnum_def)

lemma enum_truthy: "v \<in> providerEnum \<Longrightarrow> truthy v"
  by (auto simp: providerEnum_def)

lemma new_success:
  assumes "\<not> nullish data" "truthy (getProp data ''id'')" "truthy (getProp data ''url'')"
    "getProp data ''provider'' \<in> providerEnum"
  shows "new_ImageAssetDTO data =
    Inr \<lparr>id' = getProp data ''id'', url = getProp data ''url'',
         provider = getProp data ''provider'',
         generationTime = orElse (getProp data ''generationTime'') (JNum 0),
         metadata = orElse (getProp data ''metadata'') defaultMetadata\<rparr>"
  using assms enum_truthy[OF assms(4)]
  by (simp add: new_ImageAssetDTO_def nullish_def arr_includes_enum)

lemma new_Inr_fields:
  assumes "new_ImageAssetDTO data = Inr e"
  shows "\<not> nullish data" "truthy (getProp data ''id'')" "truthy (getProp data ''url'')"
    "getProp data ''provider'' \<in> providerEnum"
    "e = \<lparr>id' = getProp data ''id'', url = getProp data ''url'',
         provider = getProp data ''provider'',
         generationTime = orElse (getProp data ''generationTime'') (JNum 0),
         metadata = orElse (getProp data ''metadata'') defaultMetadata\<rparr>"
  using assms
  by (auto simp: new_ImageAssetDTO_def nullish_def arr_includes_enum
      split: if_splits option.splits)

lemma orElse_idem: "orElse (orElse a b) b = orElse a b"
  by (simp add: orElse_def)

section \<open>Concrete events\<close>

lemma url_both_chat:
  "str_includes ''https://app.example.com/api/chat/messages?next=/api/images/generate''
     ''/api/chat/messages''"
  by (simp add: str_includes_def sublist_code)

lemma url_both_image:
  "str_includes ''https://app.example.com/api/chat/messages?next=/api/images/generate''
     ''/api/images/generate''"
  by (simp add: str_includes_def sublist_code)

lemma url_image_image:
  "str_includes ''https://app.example.com/api/images/generate'' ''/api/images/generate''"
  by (simp add: str_includes_def sublist_code)

lemma url_image_chat:
  "\<not> str_includes ''https://app.example.com/api/images/generate'' ''/api/chat/messages''"
  by (simp add: str_includes_def sublist_code)

lemma url_chat_chat:
  "str_includes ''https://app.example.com/api/chat/messages'' ''/api/chat/messages''"
  by (simp add: str_includes_def sublist_code)

lemma url_chat_image:
  "\<not> str_includes ''https://app.example.com/api/chat/messages'' ''/api/images/generate''"
  by (simp add: str_includes_def sublist_code)

lemmas url_facts =
  url_both_chat url_both_image url_image_image url_image_chat url_chat_chat url_chat_image

lemma numToString_4800: "numToString 4800 = ''4800''"
  by (simp add: numToString_def digitsOf.simps digitChar_def)

lemma numToString_4799: "numToString 4799 = ''4799''"
  by (simp add: numToString_def digitsOf.simps digitChar_def)

section \<open>The claims about the ledger\<close>




text \<open>
  C4. \<open>assertLatencyWithin(channel, maxMillis)\<close> raises if and only if the current ledger
  value of the channel strictly exceeds \<open>maxMillis\<close>: a budget equal to the observed value
  \<open>L\<close> passes, and for \<open>L \<ge> 1\<close> the budget \<open>L - 1\<close> raises. The message of the error raised
  contains the channel name, the observed value and the budget, and the ledger is left as
  it was.
\<close>

theorem assertLatencyWithin_spec:
  "(\<exists>e. fst (assertLatencyWithin hub c m) = Inl e) = (m < getLatency hub c)
   \<and> (fst (assertLatencyWithin hub c m) = Inr ()) = (getLatency hub c \<le> m)
   \<and> (\<forall>e. fst (assertLatencyWithin hub c m) = Inl e \<longrightarrow>
        (\<exists>msg. e = Error msg \<and> msg = slaMessage c (getLatency hub c) m
           \<and> sublist c msg \<and> sublist (numToString (getLatency hub c)) msg
           \<and> sublist (numToString m) msg))
   \<and> (requestTimings hub c = Some L \<longrightarrow>
        getLatency hub c = L
        \<and> fst (assertLatencyWithin hub c L) = Inr ()
        \<and> (1 \<le> L \<longrightarrow> (\<exists>e. fst (assertLatencyWithin hub c (L - 1)) = Inl e)))
   \<and> snd (assertLatencyWithin hub c m) = hub"
proof -
  have raise: "m < getLatency hub c \<Longrightarrow>
      fst (assertLatencyWithin hub c m) = Inl (Error (slaMessage c (getLatency hub c) m))"
    and pass: "\<not> m < getLatency hub c \<Longrightarrow> fst (assertLatencyWithin hub c m) = Inr ()"
    and same: "snd (assertLatencyWithin hub c m) = hub"
    by (simp_all add: assertLatencyWithin_def Let_def)
  have 1: "(\<exists>e. fst (assertLatencyWithin hub c m) = Inl e) = (m < getLatency hub c)"
    using raise pass by (cases "m < getLatency hub c") simp_all
  have 2: "(fst (assertLatencyWithin hub c m) = Inr ()) = (getLatency hub c \<le> m)"
    using raise pass by (cases "m < getLatency hub c") simp_all
  have 3: "\<forall>e. fst (assertLatencyWithin hub c m) = Inl e \<longrightarrow>
        (\<exists>msg. e = Error msg \<and> msg = slaMessage c (getLatency hub c) m
           \<and> sublist c msg \<and> sublist (numToString (getLatency hub c)) msg
           \<and> sublist (numToString m) msg)"
    using raise pass
    by (cases "m < getLatency hub c")
      (simp_all add: slaMessage_endpoint slaMessage_actual slaMessage_budget)
  have 4: "requestTimings hub c = Some L \<longrightarrow>
        getLatency hub c = L
        \<and> fst (assertLatencyWithin hub c L) = Inr ()
        \<and> (1 \<le> L \<longrightarrow> (\<exists>e. fst (assertLatencyWithin hub c (L - 1)) = Inl e))"
    by (simp add: assertLatencyWithin_def Let_def getLatency_def)
  from 1 2 3 4 same show ?thesis by blast
qed

theorem assertLatencyWithin_spec_witness:
  "requestTimings \<lparr>requestTimings = [''chat_latency'' \<mapsto> 4800]\<rparr> ''chat_latency'' = Some 4800
   \<and> fst (assertLatencyWithin \<lparr>requestTimings = [''chat_latency'' \<mapsto> 4800]\<rparr> ''chat_latency'' 4800)
       = Inr ()
   \<and> fst (assertLatencyWithin \<lparr>requestTimings = [''chat_latency'' \<mapsto> 4800]\<rparr> ''chat_latency'' 4799)
       = Inl (Error ''[LATENCY SLA VIOLATION] Endpoint: chat_latency took 4800ms (max: 4799ms)'')
   \<and> sublist ''4800'' ''[LATENCY SLA VIOLATION] Endpoint: chat_latency took 4800ms (max: 4799ms)''"
proof -
  let ?hub = "\<lparr>requestTimings = [''chat_latency'' \<mapsto> 4800]\<rparr>"
  have present: "requestTimings ?hub ''chat_latency'' = Some 4800" by simp
  have msg: "slaMessage ''chat_latency'' 4800 4799
      = ''[LATENCY SLA VIOLATION] Endpoint: chat_latency took 4800ms (max: 4799ms)''"
    by (simp add: slaMessage_def numToString_4800 numToString_4799)
  note spec = assertLatencyWithin_spec[of ?hub "''chat_latency''" 4799 4800]
  from spec present have L: "getLatency ?hub ''chat_latency'' = 4800"
    and eq: "fst (assertLatencyWithin ?hub ''chat_latency'' 4800) = Inr ()"
    and ex: "\<exists>e. fst (assertLatencyWithin ?hub ''chat_latency'' (4800 - 1)) = Inl e"
    by simp_all
  from ex obtain e where e: "fst (assertLatencyWithin ?hub ''chat_latency'' 4799) = Inl e"
    by auto
  with spec L msg have
    "e = Error ''[LATENCY SLA VIOLATION] Endpoint: chat_latency took 4800ms (max: 4799ms)''"
    and "sublist ''4800'' ''[LATENCY SLA VIOLATION] Endpoint: chat_latency took 4800ms (max: 4799ms)''"
    by (auto simp: numToString_4800)
  with present eq e show ?thesis by simp
qed

text \<open>
  C5. For a channel that no observed response has written (absent from the ledger at the
  start, and the channel of no rule matching any of the events delivered since),
  \<open>getLatency\<close> returns \<open>0\<close> and \<open>assertLatencyWithin\<close> does not raise for any budget
  \<open>b \<ge> 0\<close>.
\<close>

theorem never_observed_channel:
  assumes "requestTimings hub c = None" "\<forall>r \<in> set evs. c \<notin> set (matchingChannels r)" "0 \<le> b"
  shows "getLatency (deliver hub evs) c = 0
    \<and> fst (assertLatencyWithin (deliver hub evs) c b) = Inr ()"
proof -
  have "requestTimings (deliver hub evs) c = None"
    using assms(1,2) by (rule deliver_absent)
  then have "getLatency (deliver hub evs) c = 0"
    by (rule getLatency_absent)
  then show ?thesis
    using assms(3) by (simp add: assertLatencyWithin_def Let_def)
qed

theorem never_observed_channel_witness:
  "requestTimings new_ApiHub ''chat_latency'' = None
   \<and> ''chat_latency'' \<notin> set (matchingChannels
        \<lparr>response_url = ''https://app.example.com/api/images/generate'',
         postDataBuffer = True, timing = Returns (Some \<lparr>responseEnd = 250\<rparr>)\<rparr>)
   \<and> getLatency (deliver new_ApiHub
        [\<lparr>response_url = ''https://app.example.com/api/images/generate'',
          postDataBuffer = True, timing = NotAFunction\<rparr>,
         \<lparr>response_url = ''https://app.example.com/api/images/generate'',
          postDataBuffer = True, timing = Returns (Some \<lparr>responseEnd = 250\<rparr>)\<rparr>])
        ''chat_latency'' = 0
   \<and> fst (assertLatencyWithin (deliver new_ApiHub
        [\<lparr>response_url = ''https://app.example.com/api/images/generate'',
          postDataBuffer = True, timing = NotAFunction\<rparr>,
         \<lparr>response_url = ''https://app.example.com/api/images/generate'',
          postDataBuffer = True, timing = Returns (Some \<lparr>responseEnd = 250\<rparr>)\<rparr>])
        ''chat_latency'' 0)
      = Inr ()"
proof -
  let ?ev = "\<lparr>response_url = ''https://app.example.com/api/images/generate'',
         postDataBuffer = True, timing = Returns (Some \<lparr>responseEnd = 250\<rparr>)\<rparr>"
  let ?bare = "\<lparr>response_url = ''https://app.example.com/api/images/generate'',
         postDataBuffer = True, timing = NotAFunction\<rparr>"
  have a: "requestTimings new_ApiHub ''chat_latency'' = None"
    by (simp add: new_ApiHub_def)
  have m: "''chat_latency'' \<notin> set (matchingChannels ?ev)"
    "''chat_latency'' \<notin> set (matchingChannels ?bare)"
    by (simp_all add: mem_matchingChannels url_facts)
  then have b: "\<forall>r \<in> set [?bare, ?ev]. ''chat_latency'' \<notin> set (matchingChannels r)"
    by simp
  have c: "(0::int) \<le> 0" by simp
  from never_observed_channel[OF a b c] a m show ?thesis by simp
qed




section \<open>The claims about the validator\<close>




text \<open>
  C3. A validated entity is all-or-nothing: for every input the constructor either throws,
  and there is no entity, or yields an entity whose identifier and location reference are
  present and whose provider tag is in the enumerated set.
\<close>

theorem entity_all_or_nothing:
  "(\<exists>err. new_ImageAssetDTO data = Inl err)
   \<or> (\<exists>e. new_ImageAssetDTO data = Inr e \<and> truthy (id' e) \<and> truthy (url e)
          \<and> truthy (provider e) \<and> provider e \<in> providerEnum)"
proof (cases "new_ImageAssetDTO data")
  case (Inl err)
  then show ?thesis by blast
next
  case (Inr e)
  from new_Inr_fields[OF Inr] show ?thesis
    using Inr enum_truthy by simp
qed

theorem entity_all_or_nothing_witness:
  "(\<exists>e. new_ImageAssetDTO
        (JObj [(''id'', JStr ''x''), (''url'', JStr ''y''), (''provider'', JStr ''midjourney'')])
      = Inr e \<and> truthy (id' e) \<and> truthy (url e) \<and> provider e \<in> providerEnum)
   \<and> (\<exists>err. new_ImageAssetDTO (JObj [(''id'', JNum 0), (''url'', JStr ''y'')]) = Inl err)"
  using
    entity_all_or_nothing
      [of "JObj [(''id'', JStr ''x''), (''url'', JStr ''y''), (''provider'', JStr ''midjourney'')]"]
    entity_all_or_nothing [of "JObj [(''id'', JNum 0), (''url'', JStr ''y'')]"]
  by (simp add: new_ImageAssetDTO_def)

text \<open>
  C6. For every payload whose required fields validate and whose optional fields
  \<open>generationTime\<close> and \<open>metadata\<close> are absent, validation succeeds, and the entity has
  generation duration \<open>0\<close> and the baseline metadata: width 1024, height 1024, quality
  \<open>premium\<close>.
\<close>

theorem defaults_when_absent:
  assumes "data \<noteq> JUndefined" "data \<noteq> JNull"
    "truthy (getProp data ''id'')" "truthy (getProp data ''url'')"
    "getProp data ''provider'' \<in> providerEnum"
    "getProp data ''generationTime'' = JUndefined" "getProp data ''metadata'' = JUndefined"
  shows "\<exists>e. new_ImageAssetDTO data = Inr e \<and> generationTime e = JNum 0
           \<and> metadata e =
               JObj [(''width'', JNum 1024), (''height'', JNum 1024), (''quality'', JStr ''premium'')]"
  using assms new_success[of data] by (simp add: nullish_def orElse_def defaultMetadata_def)

theorem defaults_when_absent_witness:
  "new_ImageAssetDTO (JObj [(''id'', JStr ''x''), (''url'', JStr ''y''), (''provider'', JStr ''openai'')])
     = Inr \<lparr>id' = JStr ''x'', url = JStr ''y'', provider = JStr ''openai'',
            generationTime = JNum 0,
            metadata = JObj [(''width'', JNum 1024), (''height'', JNum 1024),
                             (''quality'', JStr ''premium'')]\<rparr>"
proof -
  let ?data = "JObj [(''id'', JStr ''x''), (''url'', JStr ''y''), (''provider'', JStr ''openai'')]"
  have "\<exists>e. new_ImageAssetDTO ?data = Inr e \<and> generationTime e = JNum 0
           \<and> metadata e =
               JObj [(''width'', JNum 1024), (''height'', JNum 1024), (''quality'', JStr ''premium'')]"
    by (rule defaults_when_absent) (simp_all add: providerEnum_def)
  then obtain e where e: "new_ImageAssetDTO ?data = Inr e" "generationTime e = JNum 0"
    "metadata e =
       JObj [(''width'', JNum 1024), (''height'', JNum 1024), (''quality'', JStr ''premium'')]"
    by blast
  from new_Inr_fields(5)[OF e(1)] e show ?thesis
    by (simp add: orElse_def defaultMetadata_def)
qed

text \<open>
  C7. \<open>isFromAuthorizedProvider\<close> is a total boolean function of the entity: it is true
  if and only if the provider tag is \<open>openai\<close> or \<open>stability-ai\<close>, and in particular false
  for an entity that validation produced with provider \<open>midjourney\<close>.
\<close>

theorem authorized_iff:
  "isFromAuthorizedProvider e = (provider e = JStr ''openai'' \<or> provider e = JStr ''stability-ai'')
   \<and> (new_ImageAssetDTO data = Inr e \<and> provider e = JStr ''midjourney''
        \<longrightarrow> isFromAuthorizedProvider e = False)"
  by (cases "provider e") (auto simp: isFromAuthorizedProvider_def)

theorem authorized_iff_witness:
  "new_ImageAssetDTO
      (JObj [(''id'', JStr ''x''), (''url'', JStr ''y''), (''provider'', JStr ''midjourney'')])
     = Inr \<lparr>id' = JStr ''x'', url = JStr ''y'', provider = JStr ''midjourney'',
            generationTime = JNum 0, metadata = defaultMetadata\<rparr>
   \<and> isFromAuthorizedProvider
        \<lparr>id' = JStr ''x'', url = JStr ''y'', provider = JStr ''midjourney'',
         generationTime = JNum 0, metadata = defaultMetadata\<rparr> = False
   \<and> isFromAuthorizedProvider
        \<lparr>id' = JStr ''x'', url = JStr ''y'', provider = JStr ''openai'',
         generationTime = JNum 0, metadata = defaultMetadata\<rparr> = True"
proof -
  let ?data = "JObj [(''id'', JStr ''x''), (''url'', JStr ''y''), (''provider'', JStr ''midjourney'')]"
  let ?e = "\<lparr>id' = JStr ''x'', url = JStr ''y'', provider = JStr ''midjourney'',
         generationTime = JNum 0, metadata = defaultMetadata\<rparr>"
  let ?o = "\<lparr>id' = JStr ''x'', url = JStr ''y'', provider = JStr ''openai'',
         generationTime = JNum 0, metadata = defaultMetadata\<rparr>"
  have new: "new_ImageAssetDTO ?data = Inr ?e"
    by (simp add: new_ImageAssetDTO_def orElse_def)
  from authorized_iff[of ?e ?data] new have "isFromAuthorizedProvider ?e = False"
    by simp
  moreover from authorized_iff[of ?o ?data] have "isFromAuthorizedProvider ?o = True"
    by simp
  ultimately show ?thesis using new by simp
qed

text \<open>
  C8. Round trip: for every payload that validates, validating the object made of the
  resulting entity's five fields succeeds and yields the same entity.
\<close>

theorem round_trip:
  assumes "new_ImageAssetDTO data = Inr e"
  shows "new_ImageAssetDTO (rawForm e) = Inr e"
proof -
  note f = new_Inr_fields[OF assms]
  have e: "id' e = getProp data ''id''" "url e = getProp data ''url''"
    "provider e = getProp data ''provider''"
    "generationTime e = orElse (getProp data ''generationTime'') (JNum 0)"
    "metadata e = orElse (getProp data ''metadata'') defaultMetadata"
    using f(5) by simp_all
  have r: "\<not> nullish (rawForm e)" "getProp (rawForm e) ''id'' = id' e"
    "getProp (rawForm e) ''url'' = url e" "getProp (rawForm e) ''provider'' = provider e"
    "getProp (rawForm e) ''generationTime'' = generationTime e"
    "getProp (rawForm e) ''metadata'' = metadata e"
    by (simp_all add: rawForm_def nullish_def)
  have "new_ImageAssetDTO (rawForm e) =
    Inr \<lparr>id' = id' e, url = url e, provider = provider e,
         generationTime = orElse (generationTime e) (JNum 0),
         metadata = orElse (metadata e) defaultMetadata\<rparr>"
    using new_success[of "rawForm e"] f(2-4) by (simp add: r e)
  also have "\<dots> = Inr e"
    by (simp add: e orElse_idem)
  finally show ?thesis .
qed

theorem round_trip_witness:
  "new_ImageAssetDTO
      (JObj [(''id'', JStr ''img_12345''), (''url'', JStr ''https://cdn.example.com/a.png''),
             (''provider'', JStr ''openai''), (''generationTime'', JNum 2845)])
     = Inr \<lparr>id' = JStr ''img_12345'', url = JStr ''https://cdn.example.com/a.png'',
            provider = JStr ''openai'', generationTime = JNum 2845, metadata = defaultMetadata\<rparr>
   \<and> new_ImageAssetDTO (rawForm
        \<lparr>id' = JStr ''img_12345'', url = JStr ''https://cdn.example.com/a.png'',
         provider = JStr ''openai'', generationTime = JNum 2845, metadata = defaultMetadata\<rparr>)
     = Inr \<lparr>id' = JStr ''img_12345'', url = JStr ''https://cdn.example.com/a.png'',
            provider = JStr ''openai'', generationTime = JNum 2845, metadata = defaultMetadata\<rparr>"
proof -
  let ?data = "JObj [(''id'', JStr ''img_12345''), (''url'', JStr ''https://cdn.example.com/a.png''),
             (''provider'', JStr ''openai''), (''generationTime'', JNum 2845)]"
  let ?e = "\<lparr>id' = JStr ''img_12345'', url = JStr ''https://cdn.example.com/a.png'',
         provider = JStr ''openai'', generationTime = JNum 2845, metadata = defaultMetadata\<rparr>"
  have new: "new_ImageAssetDTO ?data = Inr ?e"
    by (simp add: new_ImageAssetDTO_def orElse_def)
  from round_trip[OF new] new show ?thesis by simp
qed

text \<open>
  C10. Optional metadata is passed through unvalidated: for every payload whose required
  fields validate and whose \<open>metadata\<close> is present and truthy, validation succeeds and the
  entity's metadata is the supplied value, whatever its shape.
\<close>

theorem metadata_passthrough:
  assumes "data \<noteq> JUndefined" "data \<noteq> JNull"
    "truthy (getProp data ''id'')" "truthy (getProp data ''url'')"
    "getProp data ''provider'' \<in> providerEnum"
    "truthy (getProp data ''metadata'')"
  shows "\<exists>e. new_ImageAssetDTO data = Inr e \<and> metadata e = getProp data ''metadata''"
  using assms new_success[of data] by (simp add: nullish_def orElse_def)

theorem metadata_passthrough_witness:
  "\<exists>e. new_ImageAssetDTO
        (JObj [(''id'', JStr ''x''), (''url'', JStr ''y''), (''provider'', JStr ''openai''),
               (''metadata'', JStr ''not a triple'')]) = Inr e
      \<and> metadata e = JStr ''not a triple''"
  using metadata_passthrough
    [of "JObj [(''id'', JStr ''x''), (''url'', JStr ''y''), (''provider'', JStr ''openai''),
               (''metadata'', JStr ''not a triple'')]"]
  by (simp add: providerEnum_def)

end
